theory Spec2Isabelle
  imports Main
begin

section \<open>User preferences and the due check (backend/models/User.js)\<close>

text \<open>
  The fields of the user schema that the scheduler reads. The two hours are
  schema-validated numbers with \<open>min: 0\<close>, and the current hour and minute come from
  \<open>Date.getHours()\<close> and \<open>Date.getMinutes()\<close>, so they are naturals.
  \<open>notificationFrequency\<close> is a string; \<open>None\<close> stands for an absent
  (\<open>undefined\<close>/\<open>null\<close>) value.
\<close>

record user =
  notificationsEnabled :: bool
  notificationStartHour :: nat
  notificationEndHour :: nat
  notificationFrequency :: "string option"

text \<open>
  \<open>this.notificationFrequency || '1hr'\<close>: an absent value and the empty string
  are falsy and give the default.
\<close>

definition frequencyOrDefault :: "string option \<Rightarrow> string" where
  "frequencyOrDefault f =
     (case f of None \<Rightarrow> ''1hr'' | Some s \<Rightarrow> (if s = [] then ''1hr'' else s))"

text \<open>The local variable \<open>withinTimeWindow\<close> of \<open>shouldReceiveNotificationAtHour\<close>.\<close>

definition withinTimeWindow :: "user \<Rightarrow> nat \<Rightarrow> bool" where
  "withinTimeWindow this currentHour =
     (let startHour = notificationStartHour this;
          endHour = notificationEndHour this
      in if endHour = 0 then currentHour \<ge> startHour \<and> currentHour < 24
         else if startHour \<le> endHour then currentHour \<ge> startHour \<and> currentHour \<le> endHour
         else currentHour \<ge> startHour \<or> currentHour \<le> endHour)"

definition shouldReceiveNotificationAtHour :: "user \<Rightarrow> nat \<Rightarrow> nat \<Rightarrow> bool \<Rightarrow> bool" where
  "shouldReceiveNotificationAtHour this currentHour currentMinute isTestMode =
     (if \<not> notificationsEnabled this then False
      else
        let frequency = frequencyOrDefault (notificationFrequency this) in
        if \<not> withinTimeWindow this currentHour then False
        else if isTestMode then
          (if frequency = ''1min'' then True
           else if frequency = ''30min'' then currentMinute mod 30 = 0
           else if frequency = ''2hr'' then currentMinute mod 120 = 0
           else currentMinute mod 60 = 0)
        else
          (if frequency = ''1min'' then currentMinute = 0
           else if frequency = ''30min'' then currentMinute = 0 \<or> currentMinute = 30
           else if frequency = ''2hr'' then currentHour mod 2 = 0 \<and> currentMinute = 0
           else currentMinute = 0))"


section \<open>Subscriptions and failure bookkeeping (backend/models/Subscription.js)\<close>

text \<open>
  The value held by the \<open>failedAttempts\<close> field. It is a counter: the schema default is
  0 and the only writers are the reset to 0 and the increment, so its numeric values are
  counts (\<open>Num n\<close>). A document can also hold no number there: \<open>undefined\<close> (the field
  was not loaded), \<open>null\<close>, or \<open>NaN\<close>.
\<close>

datatype jsnumber = Undefined | Null | NaN | Num nat

text \<open>JavaScript's global \<open>isNaN\<close>: the argument is converted with \<open>Number(_)\<close>
  first, \<open>Number(undefined)\<close> is \<open>NaN\<close> and \<open>Number(null)\<close> is 0.\<close>

fun isNaN :: "jsnumber \<Rightarrow> bool" where
  "isNaN Undefined = True"
| "isNaN Null = False"
| "isNaN NaN = True"
| "isNaN (Num n) = False"

text \<open>\<open>x += 1\<close>: numeric addition after the same conversion; \<open>NaN + 1\<close> is \<open>NaN\<close>.\<close>

fun plusOne :: "jsnumber \<Rightarrow> jsnumber" where
  "plusOne Undefined = NaN"
| "plusOne Null = Num 1"
| "plusOne NaN = NaN"
| "plusOne (Num n) = Num (n + 1)"

text \<open>\<open>x >= k\<close>: every comparison with \<open>NaN\<close> is false.\<close>

fun greaterEq :: "jsnumber \<Rightarrow> nat \<Rightarrow> bool" where
  "greaterEq Undefined k = False"
| "greaterEq Null k = (0 \<ge> k)"
| "greaterEq NaN k = False"
| "greaterEq (Num n) k = (n \<ge> k)"

text \<open>
  A subscription document. \<open>userId\<close> is the populated owner (\<open>None\<close> when the
  reference does not resolve); timestamps are milliseconds.
\<close>

record subscription =
  userId :: "user option"
  endpoint :: string
  p256dh :: string
  auth :: string
  isActive :: bool
  lastNotificationSent :: "nat option"
  failedAttempts :: jsnumber
  lastError :: "string option"

text \<open>
  \<open>markAsFailed\<close> and \<open>markAsSuccessful\<close> assign the fields of the document and then
  call \<open>save()\<close>, which writes the document to the store. The model is the document
  after the assignments; \<open>now\<close> is the value of \<open>new Date()\<close>.
\<close>

definition markAsFailed :: "string \<Rightarrow> subscription \<Rightarrow> subscription" where
  "markAsFailed errorMessage this =
     (let s1 = this\<lparr>failedAttempts :=
                     (if isNaN (failedAttempts this) then Num 0 else failedAttempts this)\<rparr>;
          s2 = s1\<lparr>failedAttempts := plusOne (failedAttempts s1)\<rparr>;
          s3 = s2\<lparr>lastError := Some errorMessage\<rparr>
      in if greaterEq (failedAttempts s3) 5 then s3\<lparr>isActive := False\<rparr> else s3)"

definition markAsSuccessful :: "nat \<Rightarrow> subscription \<Rightarrow> subscription" where
  "markAsSuccessful now this =
     this\<lparr>lastNotificationSent := Some now,
          failedAttempts := Num 0,
          lastError := None,
          isActive := True\<rparr>"

text \<open>A run of consecutive \<open>markAsFailed\<close> calls on one document, one per message.\<close>

fun markAsFailedAll :: "string list \<Rightarrow> subscription \<Rightarrow> subscription" where
  "markAsFailedAll [] s = s"
| "markAsFailedAll (e # es) s = markAsFailedAll es (markAsFailed e s)"


section \<open>The scheduler (backend/cron/notifications.js)\<close>

text \<open>
  The filter step of \<open>sendHydrationReminders\<close>: the subscriptions kept in the local
  \<open>enabledSubscriptions\<close>, given the mode flag and the hour and minute read from the
  clock in the reference zone. A subscription whose owner is missing is dropped; for the
  others the minute handed to the due check is \<open>isTestMode ? currentMinute : 0\<close>.
\<close>

definition enabledSubscriptions :: "bool \<Rightarrow> nat \<Rightarrow> nat \<Rightarrow> subscription list \<Rightarrow> subscription list" where
  "enabledSubscriptions isTestMode currentHour currentMinute subscriptions =
     filter (\<lambda>sub.
        case userId sub of
          None \<Rightarrow> False
        | Some owner \<Rightarrow>
            (let checkMinute = (if isTestMode then currentMinute else 0)
             in shouldReceiveNotificationAtHour owner currentHour checkMinute isTestMode))
       subscriptions"

text \<open>
  A task registered with the cron library: its expression, the argument its callback
  gives to \<open>sendHydrationReminders\<close>, and the status string the task reports.
\<close>

record cronTask =
  expression :: string
  callbackTestMode :: bool
  taskStatus :: string

text \<open>
  The module state: the two handles \<open>cronJob\<close> and \<open>testCronJob\<close> (\<open>None\<close> for
  \<open>undefined\<close>/\<open>null\<close>), and the number of daily cleanup tasks registered so far
  (their handle is a local constant of \<open>start\<close>).
\<close>

record scheduler =
  cronJob :: "cronTask option"
  testCronJob :: "cronTask option"
  cleanupJobs :: nat

definition start :: "scheduler \<Rightarrow> scheduler" where
  "start s =
     (if cronJob s \<noteq> None then s
      else s\<lparr>cronJob := Some \<lparr>expression = ''* * * * *'', callbackTestMode = False,
                               taskStatus = ''scheduled''\<rparr>,
             cleanupJobs := cleanupJobs s + 1\<rparr>)"

text \<open>
  \<open>stop\<close>: each handle that is set is destroyed and cleared inside its own
  \<open>try\<close>; \<open>destroyOk\<close> tells whether the library's \<open>destroy()\<close> returns normally
  (when it throws, the handle is left as it was).
\<close>

definition stop :: "(cronTask \<Rightarrow> bool) \<Rightarrow> scheduler \<Rightarrow> scheduler" where
  "stop destroyOk s =
     (let s1 = (case cronJob s of
                  None \<Rightarrow> s
                | Some j \<Rightarrow> (if destroyOk j then s\<lparr>cronJob := None\<rparr> else s))
      in case testCronJob s1 of
           None \<Rightarrow> s1
         | Some j \<Rightarrow> (if destroyOk j then s1\<lparr>testCronJob := None\<rparr> else s1))"

text \<open>
  \<open>startTestMode\<close> calls \<open>stop()\<close> and then \<open>start(true)\<close>. \<open>start\<close> declares no
  parameter, so the argument is dropped. \<open>nodeEnv\<close> is \<open>process.env.NODE_ENV\<close>.
\<close>

definition startTestMode :: "string option \<Rightarrow> (cronTask \<Rightarrow> bool) \<Rightarrow> scheduler \<Rightarrow> scheduler" where
  "startTestMode nodeEnv destroyOk s =
     (if nodeEnv = Some ''production'' then s else start (stop destroyOk s))"

definition startProductionMode :: "(cronTask \<Rightarrow> bool) \<Rightarrow> scheduler \<Rightarrow> scheduler" where
  "startProductionMode destroyOk s = start (stop destroyOk s)"

record modeStatus =
  isRunning :: bool
  nextRun :: "nat option"

record statusReport =
  production :: modeStatus
  test :: modeStatus
  timezone :: string

text \<open>\<open>getStatus\<close>; \<open>nextDate\<close> is the library's estimate of a task's next run.\<close>

definition getStatus :: "(cronTask \<Rightarrow> nat) \<Rightarrow> scheduler \<Rightarrow> statusReport" where
  "getStatus nextDate s =
     \<lparr>production =
        \<lparr>isRunning = (case cronJob s of None \<Rightarrow> False | Some j \<Rightarrow> taskStatus j = ''scheduled''),
         nextRun = (case cronJob s of None \<Rightarrow> None | Some j \<Rightarrow> Some (nextDate j))\<rparr>,
      test =
        \<lparr>isRunning = (case testCronJob s of None \<Rightarrow> False | Some j \<Rightarrow> taskStatus j = ''scheduled''),
         nextRun = (case testCronJob s of None \<Rightarrow> None | Some j \<Rightarrow> Some (nextDate j))\<rparr>,
      timezone = ''UTC''\<rparr>"

text \<open>
  What the ticks of the running scheduler select: every task held in one of the two
  handles runs its callback each minute, and the callback filters with the task's mode
  argument. The result lists, per live task, the subscriptions it selects.
\<close>

definition tickSelections :: "scheduler \<Rightarrow> nat \<Rightarrow> nat \<Rightarrow> subscription list \<Rightarrow> subscription list list" where
  "tickSelections s currentHour currentMinute subscriptions =
     map (\<lambda>j. enabledSubscriptions (callbackTestMode j) currentHour currentMinute subscriptions)
       ((case cronJob s of None \<Rightarrow> [] | Some j \<Rightarrow> [j]) @
        (case testCronJob s of None \<Rightarrow> [] | Some j \<Rightarrow> [j]))"


section \<open>Delivery (backend/utils/webPush.js)\<close>

text \<open>The object \<open>getWebPushFormat\<close> builds from a subscription document.\<close>

record pushSubscription =
  pushEndpoint :: string
  pushP256dh :: string
  pushAuth :: string

definition getWebPushFormat :: "subscription \<Rightarrow> pushSubscription" where
  "getWebPushFormat this =
     \<lparr>pushEndpoint = endpoint this, pushP256dh = p256dh this, pushAuth = auth this\<rparr>"

text \<open>A thrown error object: its \<open>message\<close> and, for transport errors, its
  \<open>statusCode\<close>.\<close>

record jsError =
  message :: string
  errorStatusCode :: "nat option"

text \<open>
  What one call of the library's \<open>webpush.sendNotification\<close> does: its promise
  resolves with a status code and headers, or the call throws (or its promise rejects)
  with an error.
\<close>

datatype sendOutcome = Resolved nat "(string \<times> string) list" | Threw jsError

record sendOptions =
  TTL :: "nat option"
  urgency :: "string option"
  topic :: "string option"

text \<open>
  The push library and the process environment are parameters of the model.
  \<open>setVapidDetails\<close> returns \<open>None\<close> when the library accepts the keys and the error
  it throws otherwise; \<open>send\<close> is \<open>webpush.sendNotification\<close>, whose first argument
  may be \<open>null\<close> (\<open>None\<close>). The payload is its JSON text.
\<close>

record webpush =
  setVapidDetails :: "string \<Rightarrow> string \<Rightarrow> string \<Rightarrow> jsError option"
  send :: "pushSubscription option \<Rightarrow> string \<Rightarrow> sendOptions \<Rightarrow> sendOutcome"
















text \<open>
  Back in \<open>sendHydrationReminders\<close>: the array handed to \<open>sendBulkNotifications\<close>,
  \<open>enabledSubscriptions.map(sub => sub.getWebPushFormat())\<close>.
\<close>

definition subscriptionsToSend :: "bool \<Rightarrow> nat \<Rightarrow> nat \<Rightarrow> subscription list \<Rightarrow> pushSubscription option list" where
  "subscriptionsToSend isTestMode currentHour currentMinute subscriptions =
     map (\<lambda>sub. Some (getWebPushFormat sub))
       (enabledSubscriptions isTestMode currentHour currentMinute subscriptions)"


section \<open>Sample data\<close>

text \<open>A user with the schema's default window (5 to 0) and half-hourly reminders.\<close>

definition halfHourUser :: user where
  "halfHourUser =
     \<lparr>notificationsEnabled = True, notificationStartHour = 5, notificationEndHour = 0,
      notificationFrequency = Some ''30min''\<rparr>"

definition twoHourUser :: user where
  "twoHourUser =
     \<lparr>notificationsEnabled = True, notificationStartHour = 5, notificationEndHour = 0,
      notificationFrequency = Some ''2hr''\<rparr>"

text \<open>A window that wraps over midnight, and one that ends at midnight.\<close>

definition nightUser :: user where
  "nightUser =
     \<lparr>notificationsEnabled = True, notificationStartHour = 22, notificationEndHour = 2,
      notificationFrequency = Some ''1hr''\<rparr>"

definition midnightEndUser :: user where
  "midnightEndUser =
     \<lparr>notificationsEnabled = True, notificationStartHour = 5, notificationEndHour = 0,
      notificationFrequency = Some ''1hr''\<rparr>"

text \<open>A window with start hour 0 and end hour 0.\<close>

definition allDayUser :: user where
  "allDayUser =
     \<lparr>notificationsEnabled = True, notificationStartHour = 0, notificationEndHour = 0,
      notificationFrequency = Some ''1hr''\<rparr>"

definition disabledUser :: user where
  "disabledUser =
     \<lparr>notificationsEnabled = False, notificationStartHour = 0, notificationEndHour = 23,
      notificationFrequency = Some ''1min''\<rparr>"

text \<open>A subscription as it is created: active, no failures.\<close>

definition freshSubscription :: subscription where
  "freshSubscription =
     \<lparr>userId = Some halfHourUser, endpoint = ''https://push.example.org/send/a1'',
      p256dh = ''BPk'', auth = ''k9'', isActive = True, lastNotificationSent = None,
      failedAttempts = Num 0, lastError = None\<rparr>"

text \<open>The same document loaded without its \<open>failedAttempts\<close> field.\<close>

definition unloadedSubscription :: subscription where
  "unloadedSubscription = freshSubscription\<lparr>failedAttempts := Undefined\<rparr>"

text \<open>An active subscription that has failed four times.\<close>

definition fourFailuresSubscription :: subscription where
  "fourFailuresSubscription = freshSubscription\<lparr>failedAttempts := Num 4\<rparr>"

text \<open>The scheduler before any call: both handles unset.\<close>

definition stoppedScheduler :: scheduler where
  "stoppedScheduler = \<lparr>cronJob = None, testCronJob = None, cleanupJobs = 0\<rparr>"




definition subA :: pushSubscription where
  "subA = \<lparr>pushEndpoint = ''https://push.example.org/send/a1'', pushP256dh = ''BPk'', pushAuth = ''k9''\<rparr>"




section \<open>Properties of the due check\<close>

lemma frequencyOrDefault_Some [simp]:
  "s \<noteq> [] \<Longrightarrow> frequencyOrDefault (Some s) = s"
  by (simp add: frequencyOrDefault_def)

text \<open>
  C6. A user whose window is 22 to 2, with notifications enabled and hourly frequency, is
  due at minute 0 exactly when the hour is at least 22 or at most 2, in both tick modes:
  of the hours 0 to 23 these are 0, 1, 2, 22 and 23, and no hour from 3 to 21.
\<close>

theorem wrapping_window_22_to_2:
  "shouldReceiveNotificationAtHour nightUser h 0 isTestMode = (22 \<le> h \<or> h \<le> 2)
   \<and> filter (\<lambda>k. shouldReceiveNotificationAtHour nightUser k 0 isTestMode) [0..<24]
       = [0, 1, 2, 22, 23]"
proof -
  have due: "shouldReceiveNotificationAtHour nightUser k 0 isTestMode = (22 \<le> k \<or> k \<le> 2)" for k
    by (simp add: shouldReceiveNotificationAtHour_def withinTimeWindow_def nightUser_def)
  have "filter (\<lambda>k. shouldReceiveNotificationAtHour nightUser k 0 isTestMode) [0..<24]
     = [0, 1, 2, 22, 23]"
    unfolding due by (simp add: upt_rec)
  with due show ?thesis by simp
qed

text \<open>
  C7, as stated, fails: with end hour 0 the window is \<open>start \<le> hour < 24\<close>, and a
  start hour of 0 puts hour 0 inside it. An enabled hourly user with start 0 and end 0 is
  due at 0:00, in production and in test mode.
\<close>

theorem window_0_to_0_includes_hour_0:
  "notificationEndHour allDayUser = 0
   \<and> shouldReceiveNotificationAtHour allDayUser 0 0 False
   \<and> shouldReceiveNotificationAtHour allDayUser 0 0 True"
  by (simp add: shouldReceiveNotificationAtHour_def withinTimeWindow_def allDayUser_def)

text \<open>
  C7, amended. With end hour 0 the window runs from the start hour through hour 23: an
  enabled hourly user is due at minute 0 of hour \<open>h\<close> exactly when \<open>start \<le> h < 24\<close>,
  so hour 0 is in the window exactly when the start hour is 0. For start 5 and end 0 the
  user is due at 23:00 and not due at 0:00.
\<close>

theorem window_ending_at_midnight_runs_from_start_through_23:
  "shouldReceiveNotificationAtHour
      (u\<lparr>notificationsEnabled := True, notificationEndHour := 0,
         notificationFrequency := Some ''1hr''\<rparr>) h 0 isTestMode
     = (notificationStartHour u \<le> h \<and> h < 24)
   \<and> shouldReceiveNotificationAtHour
        (u\<lparr>notificationsEnabled := True, notificationEndHour := 0,
           notificationFrequency := Some ''1hr''\<rparr>) 0 0 isTestMode
       = (notificationStartHour u = 0)
   \<and> (0 < notificationStartHour u \<longrightarrow>
        \<not> shouldReceiveNotificationAtHour
            (u\<lparr>notificationsEnabled := True, notificationEndHour := 0,
               notificationFrequency := Some ''1hr''\<rparr>) 0 0 isTestMode)
   \<and> shouldReceiveNotificationAtHour midnightEndUser 23 0 isTestMode
   \<and> \<not> shouldReceiveNotificationAtHour midnightEndUser 0 0 isTestMode"
  by (simp add: shouldReceiveNotificationAtHour_def withinTimeWindow_def midnightEndUser_def)

theorem window_ending_at_midnight_runs_from_start_through_23_witness:
  "0 < notificationStartHour midnightEndUser
   \<and> shouldReceiveNotificationAtHour midnightEndUser 5 0 False
   \<and> \<not> shouldReceiveNotificationAtHour midnightEndUser 0 0 False"
  using window_ending_at_midnight_runs_from_start_through_23 [of midnightEndUser 5 False]
  by (simp add: midnightEndUser_def)

text \<open>
  C9. A user whose notifications are disabled is never due, whatever the hour, the
  minute, the frequency and the tick mode.
\<close>

theorem disabled_user_is_never_due:
  "\<not> notificationsEnabled u \<Longrightarrow>
     \<not> shouldReceiveNotificationAtHour u currentHour currentMinute isTestMode"
  by (simp add: shouldReceiveNotificationAtHour_def)

theorem disabled_user_is_never_due_witness:
  "\<not> notificationsEnabled disabledUser \<and> \<not> shouldReceiveNotificationAtHour disabledUser 12 0 True"
proof -
  have off: "\<not> notificationsEnabled disabledUser" by (simp add: disabledUser_def)
  from disabled_user_is_never_due [OF off, of 12 0 True] off show ?thesis by simp
qed

text \<open>
  C3, as stated, fails: the test-mode rule for \<open>2hr\<close> is \<open>currentMinute % 120 === 0\<close>,
  and minute 0 lies in the range 0 to 59 and satisfies it. A two-hourly user inside the
  window is due on the test-mode tick at 10:00.
\<close>

theorem two_hour_user_due_in_test_mode_at_minute_0:
  "shouldReceiveNotificationAtHour twoHourUser 10 0 True"
  by (simp add: shouldReceiveNotificationAtHour_def withinTimeWindow_def twoHourUser_def)

text \<open>
  C3, amended. For a minute in the range 0 to 59 the test-mode \<open>2hr\<close> rule holds
  exactly at minute 0: a user with that frequency is due on a test-mode tick exactly when
  notifications are enabled, the hour is inside the window and the minute is 0, and never
  at a minute from 1 to 59.
\<close>

theorem test_mode_two_hour_rule_holds_only_at_minute_0:
  "notificationFrequency u = Some ''2hr'' \<Longrightarrow> currentMinute < 60 \<Longrightarrow>
     shouldReceiveNotificationAtHour u currentHour currentMinute True
       = (notificationsEnabled u \<and> withinTimeWindow u currentHour \<and> currentMinute = 0)"
  by (auto simp add: shouldReceiveNotificationAtHour_def)

theorem test_mode_two_hour_rule_holds_only_at_minute_0_witness:
  "notificationFrequency twoHourUser = Some ''2hr'' \<and> (30::nat) < 60
   \<and> \<not> shouldReceiveNotificationAtHour twoHourUser 10 30 True"
proof -
  have freq: "notificationFrequency twoHourUser = Some ''2hr''" by (simp add: twoHourUser_def)
  have range: "(30::nat) < 60" by simp
  from test_mode_two_hour_rule_holds_only_at_minute_0 [OF freq range, of 10] freq
  show ?thesis by simp
qed


section \<open>Properties of the failure bookkeeping\<close>

lemma markAsFailed_count:
  "failedAttempts s = Num n \<Longrightarrow> failedAttempts (markAsFailed e s) = Num (n + 1)"
  by (simp add: markAsFailed_def Let_def)

lemma markAsFailed_active:
  "failedAttempts s = Num n \<Longrightarrow> isActive (markAsFailed e s) = (isActive s \<and> n + 1 < 5)"
  by (auto simp add: markAsFailed_def Let_def)

lemma markAsFailedAll_count:
  "failedAttempts s = Num n \<Longrightarrow> failedAttempts (markAsFailedAll es s) = Num (n + length es)"
proof (induction es arbitrary: s n)
  case Nil
  then show ?case by simp
next
  case (Cons e es)
  from Cons.prems have "failedAttempts (markAsFailed e s) = Num (n + 1)"
    by (rule markAsFailed_count)
  from Cons.IH [OF this] show ?case by simp
qed

lemma markAsFailedAll_active:
  "failedAttempts s = Num n \<Longrightarrow>
     isActive (markAsFailedAll es s) = (isActive s \<and> (es = [] \<or> n + length es < 5))"
proof (induction es arbitrary: s n)
  case Nil
  then show ?case by simp
next
  case (Cons e es)
  from Cons.prems have count: "failedAttempts (markAsFailed e s) = Num (n + 1)"
    by (rule markAsFailed_count)
  from Cons.prems have active: "isActive (markAsFailed e s) = (isActive s \<and> n + 1 < 5)"
    by (rule markAsFailed_active)
  from Cons.IH [OF count] active show ?case by auto
qed

text \<open>
  C4. On a subscription that is active with \<open>failedAttempts = 0\<close>, after any run of
  consecutive \<open>markAsFailed\<close> calls the counter equals the number of calls and the
  subscription is active exactly when fewer than 5 calls were made: it is still active
  after each of the first 4 calls and inactive from the 5th call on, so the flag changes
  once, on the 5th call.
\<close>

theorem deactivated_on_the_fifth_failure:
  "isActive s \<Longrightarrow> failedAttempts s = Num 0 \<Longrightarrow>
     isActive (markAsFailedAll es s) = (length es < 5)
     \<and> failedAttempts (markAsFailedAll es s) = Num (length es)"
  using markAsFailedAll_active [of s 0 es] markAsFailedAll_count [of s 0 es]
  by auto

theorem deactivated_on_the_fifth_failure_witness:
  "isActive freshSubscription \<and> failedAttempts freshSubscription = Num 0
   \<and> isActive (markAsFailedAll [''Gone'', ''Gone'', ''Gone'', ''Gone''] freshSubscription)
   \<and> \<not> isActive (markAsFailedAll [''Gone'', ''Gone'', ''Gone'', ''Gone'', ''Gone''] freshSubscription)"
proof -
  have a: "isActive freshSubscription" by (simp add: freshSubscription_def)
  have z: "failedAttempts freshSubscription = Num 0" by (simp add: freshSubscription_def)
  from deactivated_on_the_fifth_failure [OF a z, of "[''Gone'', ''Gone'', ''Gone'', ''Gone'']"]
       deactivated_on_the_fifth_failure [OF a z, of "[''Gone'', ''Gone'', ''Gone'', ''Gone'', ''Gone'']"]
       a z
  show ?thesis by simp
qed

text \<open>
  C8. After \<open>markAsSuccessful\<close> the tracked fields are \<open>failedAttempts = 0\<close>,
  \<open>lastError = null\<close> and \<open>isActive = true\<close> whatever the document held before, so
  they do not depend on the prior state, and a second call leaves them as the first did
  (with the same timestamp the whole document is unchanged by the second call).
\<close>

theorem markAsSuccessful_resets_tracked_fields:
  "failedAttempts (markAsSuccessful now s) = Num 0
   \<and> lastError (markAsSuccessful now s) = None
   \<and> isActive (markAsSuccessful now s)
   \<and> failedAttempts (markAsSuccessful now' (markAsSuccessful now s))
       = failedAttempts (markAsSuccessful now s)
   \<and> lastError (markAsSuccessful now' (markAsSuccessful now s))
       = lastError (markAsSuccessful now s)
   \<and> isActive (markAsSuccessful now' (markAsSuccessful now s))
       = isActive (markAsSuccessful now s)
   \<and> failedAttempts (markAsSuccessful now s) = failedAttempts (markAsSuccessful now' s')
   \<and> lastError (markAsSuccessful now s) = lastError (markAsSuccessful now' s')
   \<and> isActive (markAsSuccessful now s) = isActive (markAsSuccessful now' s')
   \<and> markAsSuccessful now (markAsSuccessful now s) = markAsSuccessful now s"
  by (simp add: markAsSuccessful_def)

text \<open>
  C10. \<open>markAsFailed\<close> normalises and then increments: when \<open>failedAttempts\<close> is not
  a number (\<open>NaN\<close> or \<open>undefined\<close>) the new value is 1, when it is \<open>null\<close> the new
  value is 1, and when it is a count \<open>n\<close> the new value is \<open>n + 1\<close>. So after every call
  the field is a number \<open>k \<ge> 1\<close>, and the comparison with 5 is decided on that number:
  the subscription is active afterwards exactly when it was active before and \<open>k < 5\<close>.
  The error message is stored.
\<close>

theorem markAsFailed_normalises_then_increments:
  "(isNaN (failedAttempts s) \<longrightarrow> failedAttempts (markAsFailed e s) = Num 1)
   \<and> (failedAttempts s = Null \<longrightarrow> failedAttempts (markAsFailed e s) = Num 1)
   \<and> (\<forall>n. failedAttempts s = Num n \<longrightarrow> failedAttempts (markAsFailed e s) = Num (n + 1))
   \<and> (\<exists>k. failedAttempts (markAsFailed e s) = Num k \<and> 1 \<le> k
          \<and> isActive (markAsFailed e s) = (isActive s \<and> k < 5))
   \<and> lastError (markAsFailed e s) = Some e"
  by (cases "failedAttempts s") (auto simp add: markAsFailed_def Let_def)

theorem markAsFailed_normalises_then_increments_witness:
  "isNaN (failedAttempts unloadedSubscription)
   \<and> failedAttempts (markAsFailed ''Gone'' unloadedSubscription) = Num 1
   \<and> isActive (markAsFailed ''Gone'' unloadedSubscription)
   \<and> failedAttempts fourFailuresSubscription = Num 4
   \<and> isActive fourFailuresSubscription
   \<and> failedAttempts (markAsFailed ''Gone'' fourFailuresSubscription) = Num 5
   \<and> \<not> isActive (markAsFailed ''Gone'' fourFailuresSubscription)"
proof -
  have u: "isNaN (failedAttempts unloadedSubscription)" "isActive unloadedSubscription"
    by (simp_all add: unloadedSubscription_def freshSubscription_def)
  have f: "failedAttempts fourFailuresSubscription = Num 4" "isActive fourFailuresSubscription"
    by (simp_all add: fourFailuresSubscription_def freshSubscription_def)
  from markAsFailed_normalises_then_increments [of unloadedSubscription "''Gone''"]
       markAsFailed_normalises_then_increments [of fourFailuresSubscription "''Gone''"]
       u f
  show ?thesis by auto
qed


section \<open>Properties of the scheduler\<close>

lemma production_selection_ignores_minute:
  "enabledSubscriptions False currentHour currentMinute subscriptions
     = enabledSubscriptions False currentHour 0 subscriptions"
  by (simp add: enabledSubscriptions_def)

text \<open>
  C1: the code at a production tick at 10:15. The subscription's owner has the window
  5 to 0 and frequency \<open>30min\<close>; the due check itself rejects minute 15, but the
  production tick hands it minute 0, so the subscription is selected and handed to the
  dispatcher, as it is by the task that \<open>start\<close> registers.
\<close>

theorem production_tick_at_minute_15_selects_half_hour_user:
  "\<not> shouldReceiveNotificationAtHour halfHourUser 10 15 False
   \<and> userId freshSubscription = Some halfHourUser
   \<and> enabledSubscriptions False 10 15 [freshSubscription] = [freshSubscription]
   \<and> subscriptionsToSend False 10 15 [freshSubscription] = [Some subA]
   \<and> tickSelections (start stoppedScheduler) 10 15 [freshSubscription] = [[freshSubscription]]"
  by (simp add: enabledSubscriptions_def subscriptionsToSend_def getWebPushFormat_def subA_def
      tickSelections_def start_def stoppedScheduler_def shouldReceiveNotificationAtHour_def
      withinTimeWindow_def freshSubscription_def halfHourUser_def)

lemma start_keeps_testCronJob: "testCronJob (start s) = testCronJob s"
  by (simp add: start_def)

text \<open>
  C2: the code at \<open>startTestMode()\<close> from the stopped scheduler outside production.
  \<open>stop()\<close> finds nothing to stop and \<open>start(true)\<close> registers the production task,
  whose callback runs \<open>sendHydrationReminders(false)\<close>; \<open>testCronJob\<close> stays unset,
  the status report shows the production ticker running and the test ticker not running,
  and a tick at 10:15 selects the half-hourly user by the production rule, where the
  test-mode rule does not.
\<close>

theorem startTestMode_registers_the_production_task:
  "cronJob (startTestMode (Some ''development'') destroyOk stoppedScheduler)
     = Some \<lparr>expression = ''* * * * *'', callbackTestMode = False, taskStatus = ''scheduled''\<rparr>
   \<and> testCronJob (startTestMode (Some ''development'') destroyOk stoppedScheduler) = None
   \<and> isRunning (production (getStatus nextDate
         (startTestMode (Some ''development'') destroyOk stoppedScheduler)))
   \<and> \<not> isRunning (test (getStatus nextDate
         (startTestMode (Some ''development'') destroyOk stoppedScheduler)))
   \<and> tickSelections (startTestMode (Some ''development'') destroyOk stoppedScheduler)
         10 15 [freshSubscription] = [[freshSubscription]]
   \<and> enabledSubscriptions True 10 15 [freshSubscription] = []"
  by (simp add: startTestMode_def stop_def start_def stoppedScheduler_def getStatus_def
      tickSelections_def enabledSubscriptions_def shouldReceiveNotificationAtHour_def
      withinTimeWindow_def freshSubscription_def halfHourUser_def)


section \<open>Properties of the delivery\<close>














end
